theory Spec2Isabelle
  imports Complex_Main
begin

section \<open>Exceptions\<close>

text \<open>
  Exceptions of the Python program are values: every function that can raise returns
  \<open>error + 'a\<close>, with \<open>Inl\<close> for the exception.
\<close>

datatype error = ValueError | AttributeError | IndexError | UnboundLocalError | OverflowError

section \<open>Floating-point numbers\<close>

text \<open>
  A binary floating-point format: the precision in bits and the least exponent of a
  normal number. A finite float is the real number it stands for, and an operation on
  floats is the operation on the reals followed by \<open>rnd\<close>, rounding to the nearest value of
  the format and to the even one of two nearest. Below the normal range the spacing stays
  that of the least exponent (gradual underflow). The exponent has no upper bound in \<open>rnd\<close>;
  where the source can overflow, the model says so at that place.
\<close>

record format =
  prec :: nat
  emin :: int

definition binary64 :: format where
  "binary64 = \<lparr>prec = 53, emin = - 1022\<rparr>"


definition round_half_even :: "real \<Rightarrow> int" where
  "round_half_even x =
     (let f = \<lfloor>x\<rfloor>
      in if x - of_int f < 1 / 2 then f
         else if 1 / 2 < x - of_int f then f + 1
         else if even f then f else f + 1)"

text \<open>The exponent \<open>e\<close> with \<open>2 ^ e \<le> |x| < 2 ^ (e + 1)\<close>, and the spacing of the floats there.\<close>

definition binade :: "real \<Rightarrow> int" where
  "binade x = \<lfloor>log 2 \<bar>x\<bar>\<rfloor>"

definition ulp :: "format \<Rightarrow> real \<Rightarrow> real" where
  "ulp F x = 2 powi (max (binade x) (emin F) - int (prec F) + 1)"

definition rnd :: "format \<Rightarrow> real \<Rightarrow> real" where
  "rnd F x = (if x = 0 then 0 else of_int (round_half_even (x / ulp F x)) * ulp F x)"


definition d03 :: real where
  "d03 = 5404319552844595 / 18014398509481984"

definition d07 :: real where
  "d07 = 3152519739159347 / 4503599627370496"

section \<open>Python numbers\<close>

text \<open>
  A Python number is an \<open>int\<close>, of any size, or a \<open>float\<close>: a finite double, an infinity or
  \<open>nan\<close>.
\<close>

datatype pynum = PyInt int | PyFloat real | PyInf | PyNegInf | PyNaN

text \<open>\<open>x < 1\<close> and \<open>x >= n\<close> for an \<open>int\<close> \<open>n\<close>. A comparison with \<open>nan\<close> is false.\<close>

fun lt_one :: "pynum \<Rightarrow> bool" where
  "lt_one (PyInt i) = (i < 1)"
| "lt_one (PyFloat r) = (r < 1)"
| "lt_one PyInf = False"
| "lt_one PyNegInf = True"
| "lt_one PyNaN = False"

fun ge_int :: "pynum \<Rightarrow> int \<Rightarrow> bool" where
  "ge_int (PyInt i) n = (n \<le> i)"
| "ge_int (PyFloat r) n = (of_int n \<le> r)"
| "ge_int PyInf n = True"
| "ge_int PyNegInf n = False"
| "ge_int PyNaN n = False"

text \<open>
  The result of a double operation whose rounded value is \<open>q\<close>: an infinity from
  \<open>2 ^ 1024\<close> on.
\<close>

definition to_double :: "real \<Rightarrow> pynum" where
  "to_double q = (if 2 ^ 1024 \<le> q then PyInf else if q \<le> - (2 ^ 1024) then PyNegInf else PyFloat q)"

text \<open>
  The double product of the \<open>int\<close> \<open>n\<close>, converted to a double, and the double \<open>r\<close>, as a
  real number.
\<close>

definition float_product :: "int \<Rightarrow> real \<Rightarrow> real" where
  "float_product n r = rnd binary64 (rnd binary64 (of_int n) * r)"

text \<open>
  \<open>n * x\<close> for an \<open>int\<close> \<open>n\<close>. With a float \<open>x\<close> the \<open>int\<close> is converted first, which raises
  OverflowError when it is too large for a double.
\<close>

fun int_times :: "int \<Rightarrow> pynum \<Rightarrow> error + pynum" where
  "int_times n (PyInt i) = Inr (PyInt (n * i))"
| "int_times n x =
     (if 2 ^ 1024 \<le> \<bar>rnd binary64 (of_int n)\<bar> then Inl OverflowError
      else (case x of
              PyFloat r \<Rightarrow> Inr (to_double (float_product n r))
            | PyInf \<Rightarrow> Inr (if 0 < n then PyInf else if n < 0 then PyNegInf else PyNaN)
            | PyNegInf \<Rightarrow> Inr (if 0 < n then PyNegInf else if n < 0 then PyInf else PyNaN)
            | _ \<Rightarrow> Inr PyNaN))"

text \<open>
  Python's \<open>int(x)\<close>: a finite float is truncated towards zero, an infinity raises
  OverflowError and \<open>nan\<close> ValueError.
\<close>

definition trunc_zero :: "real \<Rightarrow> int" where
  "trunc_zero r = (if 0 \<le> r then \<lfloor>r\<rfloor> else \<lceil>r\<rceil>)"

fun py_int :: "pynum \<Rightarrow> error + int" where
  "py_int (PyInt i) = Inr i"
| "py_int (PyFloat r) = Inr (trunc_zero r)"
| "py_int PyNaN = Inl ValueError"
| "py_int x = Inl OverflowError"

section \<open>numpy arrays\<close>

text \<open>
  A two-dimensional numpy array: its shape and its rows. The shape is kept beside the
  rows because an array with no rows still has a column count.
\<close>

record 'a array2 =
  nrows :: nat
  ncols :: nat
  rows :: "'a list list"


definition size2 :: "'a array2 \<Rightarrow> nat" where
  "size2 A = nrows A * ncols A"

text \<open>\<open>A[:n]\<close> for a count \<open>n \<ge> 0\<close>: the first \<open>n\<close> rows, all of them when there are fewer.\<close>

definition take_rows :: "nat \<Rightarrow> 'a array2 \<Rightarrow> 'a array2" where
  "take_rows n A = \<lparr>nrows = min n (nrows A), ncols = ncols A, rows = take n (rows A)\<rparr>"

text \<open>\<open>A.T\<close>\<close>

definition T2 :: "'a array2 \<Rightarrow> 'a array2" where
  "T2 A = \<lparr>nrows = ncols A, ncols = nrows A,
           rows = map (\<lambda>j. map (\<lambda>r. r ! j) (rows A)) [0..<ncols A]\<rparr>"

text \<open>\<open>A.flatten()\<close>, in row-major order.\<close>

definition flatten2 :: "'a array2 \<Rightarrow> 'a list" where
  "flatten2 A = concat (rows A)"

definition map2d :: "('a \<Rightarrow> 'b) \<Rightarrow> 'a array2 \<Rightarrow> 'b array2" where
  "map2d f A = \<lparr>nrows = nrows A, ncols = ncols A, rows = map (map f) (rows A)\<rparr>"

text \<open>
  Assignment into a row of length \<open>n\<close>, \<open>out[i, :] = v\<close>: numpy accepts a value of the same
  length, stretches a value of length one, and raises ValueError otherwise.
\<close>

definition assign_row :: "nat \<Rightarrow> 'a list \<Rightarrow> error + 'a list" where
  "assign_row n v =
     (if length v = n then Inr v
      else (case v of [x] \<Rightarrow> Inr (replicate n x) | _ \<Rightarrow> Inl ValueError))"

text \<open>Assignment into an \<open>r \<times> c\<close> slice, \<open>out[i, :, :] = A\<close>, with the same broadcasting.\<close>

definition assign_mat :: "nat \<Rightarrow> nat \<Rightarrow> 'a array2 \<Rightarrow> error + 'a list list" where
  "assign_mat r c A =
     (if (nrows A = r \<or> nrows A = 1) \<and> (ncols A = c \<or> ncols A = 1)
      then Inr (map (\<lambda>row. if ncols A = c then row else replicate c (row ! 0))
                  (if nrows A = r then rows A else replicate r (rows A ! 0)))
      else Inl ValueError)"

text \<open>
  \<open>a.searchsorted(v, side='right')\<close>: numpy's binary search between \<open>lo\<close> and \<open>hi\<close>. On an
  ascending array the result is the number of elements \<open>\<le> v\<close>.
\<close>

function bsearch_right :: "real list \<Rightarrow> real \<Rightarrow> nat \<Rightarrow> nat \<Rightarrow> nat" where
  "bsearch_right a v lo hi =
     (if lo < hi
      then (let mid = lo + (hi - lo) div 2
            in if a ! mid \<le> v then bsearch_right a v (mid + 1) hi
               else bsearch_right a v lo mid)
      else lo)"
  by pat_completeness auto
termination
  by (relation "measure (\<lambda>(a, v, lo, hi). hi - lo)") auto

definition searchsorted_right :: "real list \<Rightarrow> real \<Rightarrow> nat" where
  "searchsorted_right a v = bsearch_right a v 0 (length a)"

section \<open>SpectrogramTransformer\<close>

text \<open>
  The values the variable \<open>window\<close> takes: Python's \<open>None\<close>, a string, a callable supplied by
  the caller, or one of the two window functions of \<open>matplotlib.mlab\<close>.
\<close>

datatype 'w window = PyNone | PyStr string | Callable 'w | window_hanning | window_none

text \<open>
  The numerical library routines the transformer calls are parameters of the model:
  \<open>specgram x NFFT Fs pad_to noverlap window\<close> is \<open>mlab.specgram\<close>, which returns the power
  matrix, the frequency vector and the bin times, or raises; \<open>decibel\<close> is the elementwise
  map \<open>10. * np.log10\<close>.
\<close>

record ('x, 'a, 'w) mlab =
  specgram :: "'x \<Rightarrow> int \<Rightarrow> real \<Rightarrow> int option \<Rightarrow> pynum \<Rightarrow> 'w window
                 \<Rightarrow> error + ('a array2 \<times> real list \<times> real list)"
  decibel :: "'a \<Rightarrow> 'a"

text \<open>
  The transformer's attributes. \<open>dtype\<close> is the conversion of an element to the output's
  element type. The flags \<open>log\<close>, \<open>flatten\<close> and \<open>transpose\<close> carry a suffix.
\<close>

record ('a, 'b, 'w) SpectrogramTransformer =
  pad_to :: "int option"
  NFFT :: int
  noverlap :: pynum
  clip :: real
  dtype :: "'a \<Rightarrow> 'b"
  log_flag :: bool
  flatten_flag :: bool
  transpose_flag :: bool
  window :: "'w window"

text \<open>
  \<open>__init__\<close>. A \<open>noverlap\<close> below one is replaced by \<open>int(NFFT * noverlap)\<close> (lines 41 and
  42), where the product and \<open>int\<close> can raise; any other value is stored as it is.
\<close>

definition SpectrogramTransformer_init ::
  "int option \<Rightarrow> int \<Rightarrow> pynum \<Rightarrow> real \<Rightarrow> ('a \<Rightarrow> 'b) \<Rightarrow> bool \<Rightarrow> bool \<Rightarrow> bool \<Rightarrow> 'w window
     \<Rightarrow> error + ('a, 'b, 'w) SpectrogramTransformer" where
  "SpectrogramTransformer_init pad_to' NFFT' noverlap' clip' dtype' log' flatten' transpose' window' =
     (case (if lt_one noverlap'
            then (case int_times NFFT' noverlap' of
                    Inl e \<Rightarrow> Inl e
                  | Inr q \<Rightarrow> (case py_int q of Inl e \<Rightarrow> Inl e | Inr z \<Rightarrow> Inr (PyInt z)))
            else Inr noverlap') of
        Inl e \<Rightarrow> Inl e
      | Inr nov \<Rightarrow>
          Inr \<lparr>pad_to = pad_to', NFFT = NFFT', noverlap = nov, clip = clip', dtype = dtype',
               log_flag = log', flatten_flag = flatten', transpose_flag = transpose',
               window = window'\<rparr>)"

text \<open>
  The output buffer \<open>X_prime\<close>. \<open>np.empty\<close> leaves the contents unset: a row not yet written
  is \<open>None\<close>. \<open>Buf2 n w\<close> has shape \<open>(n, w)\<close>, \<open>Buf3 n r c\<close> has shape \<open>(n, r, c)\<close>.
\<close>

datatype 'b buffer =
  Buf2 nat nat "'b list option list"
| Buf3 nat nat nat "'b list list option list"

text \<open>The window passed to \<open>specgram\<close> (lines 57 to 61).\<close>

definition resolve_window :: "'w window \<Rightarrow> 'w window" where
  "resolve_window w =
     (let w1 = (if w = PyNone then window_hanning else w)
      in if w1 = PyStr ''none'' then window_none else w1)"

text \<open>The clip step (lines 72 to 74).\<close>

definition clip_step :: "real \<Rightarrow> real list \<Rightarrow> 'a array2 \<Rightarrow> 'a array2" where
  "clip_step c freqs Pxx =
     (if c < 1000 then take_rows (searchsorted_right freqs c) Pxx else Pxx)"

text \<open>The steps between \<open>specgram\<close> and the store into the buffer (lines 69 to 77).\<close>

definition post_process ::
  "('x, 'a, 'w) mlab \<Rightarrow> ('a, 'b, 'w) SpectrogramTransformer \<Rightarrow> 'a array2 \<Rightarrow> real list \<Rightarrow> 'a array2" where
  "post_process L t Pxx freqs =
     (let P1 = (if log_flag t then map2d (decibel L) Pxx else Pxx);
          P2 = clip_step (clip t) freqs P1
      in if transpose_flag t then T2 P2 else P2)"

text \<open>The allocation on the first signal (lines 79 to 84).\<close>

definition allocate :: "('a, 'b, 'w) SpectrogramTransformer \<Rightarrow> nat \<Rightarrow> 'a array2 \<Rightarrow> 'b buffer" where
  "allocate t n Pxx =
     (if flatten_flag t then Buf2 n (size2 Pxx) (replicate n None)
      else Buf3 n (nrows Pxx) (ncols Pxx) (replicate n None))"

text \<open>
  The store of one spectrogram (lines 86 to 90). Under \<open>flatten\<close> the buffer from
  \<open>allocate\<close> has two dimensions, and otherwise three. For the other two combinations,
  which the loop never reaches: a row assigned to \<open>X_prime[i, :]\<close> of a three-dimensional
  buffer is broadcast over the rows of the slice, and three indices on a two-dimensional
  buffer raise IndexError.
\<close>

definition store :: "('a, 'b, 'w) SpectrogramTransformer \<Rightarrow> nat \<Rightarrow> 'a array2 \<Rightarrow> 'b buffer
                       \<Rightarrow> error + 'b buffer" where
  "store t i Pxx B =
     (if flatten_flag t then
        (case B of
           Buf2 n w rs \<Rightarrow>
             (case assign_row w (flatten2 Pxx) of
                Inl e \<Rightarrow> Inl e
              | Inr v \<Rightarrow> Inr (Buf2 n w (rs[i := Some (map (dtype t) v)])))
         | Buf3 n r c rs \<Rightarrow>
             (case assign_row c (flatten2 Pxx) of
                Inl e \<Rightarrow> Inl e
              | Inr v \<Rightarrow> Inr (Buf3 n r c (rs[i := Some (replicate r (map (dtype t) v))]))))
      else
        (case B of
           Buf2 n w rs \<Rightarrow> Inl IndexError
         | Buf3 n r c rs \<Rightarrow>
             (case assign_mat r c Pxx of
                Inl e \<Rightarrow> Inl e
              | Inr m \<Rightarrow> Inr (Buf3 n r c (rs[i := Some (map (map (dtype t)) m)])))))"

text \<open>
  The loop of \<open>transform\<close> (lines 63 to 90) over the signals still to be processed, with
  the index \<open>i\<close> of the next one, the number \<open>n\<close> of signals of the batch and the buffer.
  \<open>pp\<close> stands for lines 69 to 77, so that the same loop can be run with the clip step
  left out.
\<close>

fun spectrogram_loop ::
  "('x, 'a, 'w) mlab \<Rightarrow> ('a, 'b, 'w) SpectrogramTransformer \<Rightarrow> ('a array2 \<Rightarrow> real list \<Rightarrow> 'a array2)
     \<Rightarrow> 'w window \<Rightarrow> nat \<Rightarrow> nat \<Rightarrow> 'x list \<Rightarrow> 'b buffer option \<Rightarrow> error + 'b buffer option" where
  "spectrogram_loop L t pp w n i [] X_prime = Inr X_prime"
| "spectrogram_loop L t pp w n i (X_i # rest) X_prime =
     (case specgram L X_i (NFFT t) 2000 (pad_to t) (noverlap t) w of
        Inl e \<Rightarrow> Inl e
      | Inr (Pxx, freqs, bins) \<Rightarrow>
          (let P = pp Pxx freqs;
               B = (case X_prime of None \<Rightarrow> allocate t n P | Some B0 \<Rightarrow> B0)
           in case store t i P B of
                Inl e \<Rightarrow> Inl e
              | Inr B' \<Rightarrow> spectrogram_loop L t pp w n (i + 1) rest (Some B')))"

text \<open>\<open>transform\<close>: the batch is the list of its signals; the result \<open>None\<close> is Python's.\<close>

definition SpectrogramTransformer_transform ::
  "('x, 'a, 'w) mlab \<Rightarrow> ('a, 'b, 'w) SpectrogramTransformer \<Rightarrow> 'x list \<Rightarrow> error + 'b buffer option" where
  "SpectrogramTransformer_transform L t X =
     spectrogram_loop L t (post_process L t) (resolve_window (window t)) (length X) 0 X None"

text \<open>
  For comparison, the transform with clipping disabled: the same loop, where lines 72 to
  74 are left out of the steps applied to each spectrogram.
\<close>

definition post_process_clip_disabled ::
  "('x, 'a, 'w) mlab \<Rightarrow> ('a, 'b, 'w) SpectrogramTransformer \<Rightarrow> 'a array2 \<Rightarrow> real list \<Rightarrow> 'a array2" where
  "post_process_clip_disabled L t Pxx freqs =
     (let P1 = (if log_flag t then map2d (decibel L) Pxx else Pxx)
      in if transpose_flag t then T2 P1 else P1)"

definition transform_clip_disabled ::
  "('x, 'a, 'w) mlab \<Rightarrow> ('a, 'b, 'w) SpectrogramTransformer \<Rightarrow> 'x list \<Rightarrow> error + 'b buffer option" where
  "transform_clip_disabled L t X =
     spectrogram_loop L t (post_process_clip_disabled L t) (resolve_window (window t))
       (length X) 0 X None"

text \<open>
  Modelled from the spec: \<open>mlab.specgram\<close> belongs to matplotlib and is not part of the
  repository. A call with \<open>noverlap \<ge> NFFT\<close> is invalid and is refused with an error
  (section 4.1, failure modes; ValueError in matplotlib) before anything is computed. The
  numerical work on a valid call is the parameter \<open>spectrum\<close>.
\<close>

definition mlab_specgram ::
  "('x \<Rightarrow> int \<Rightarrow> real \<Rightarrow> int option \<Rightarrow> pynum \<Rightarrow> 'w window
      \<Rightarrow> error + ('a array2 \<times> real list \<times> real list))
   \<Rightarrow> 'x \<Rightarrow> int \<Rightarrow> real \<Rightarrow> int option \<Rightarrow> pynum \<Rightarrow> 'w window
   \<Rightarrow> error + ('a array2 \<times> real list \<times> real list)" where
  "mlab_specgram spectrum x nfft fs pad nov w =
     (if ge_int nov nfft then Inl ValueError else spectrum x nfft fs pad nov w)"

definition matplotlib ::
  "('x \<Rightarrow> int \<Rightarrow> real \<Rightarrow> int option \<Rightarrow> pynum \<Rightarrow> 'w window
      \<Rightarrow> error + ('a array2 \<times> real list \<times> real list))
   \<Rightarrow> ('a \<Rightarrow> 'a) \<Rightarrow> ('x, 'a, 'w) mlab" where
  "matplotlib spectrum db = \<lparr>specgram = mlab_specgram spectrum, decibel = db\<rparr>"

text \<open>
  For running the model on examples: a spectrum that returns, for every call, a fixed 3
  by 2 power matrix over the frequencies 0, 500 and 1000 Hz, and a \<open>decibel\<close> that doubles
  a value.
\<close>

definition sample_spectrum ::
  "real list \<Rightarrow> int \<Rightarrow> real \<Rightarrow> int option \<Rightarrow> pynum \<Rightarrow> unit window
     \<Rightarrow> error + (real array2 \<times> real list \<times> real list)" where
  "sample_spectrum x nfft fs pad nov w =
     Inr (\<lparr>nrows = 3, ncols = 2, rows = [[1, 2], [3, 4], [5, 6]]\<rparr>, [0, 500, 1000], [0, 1])"

definition sample_mlab :: "(real list, real, unit) mlab" where
  "sample_mlab = matplotlib sample_spectrum (\<lambda>v. 2 * v)"

definition sample_transformer :: "pynum \<Rightarrow> real \<Rightarrow> (real, real, unit) SpectrogramTransformer" where
  "sample_transformer noverlap' clip' =
     \<lparr>pad_to = None, NFFT = 256, noverlap = noverlap', clip = clip', dtype = id,
      log_flag = True, flatten_flag = True, transpose_flag = False, window = PyNone\<rparr>"

section \<open>FilterTransformer\<close>

text \<open>
  \<open>transform\<close> of this class updates an array in place, so its model runs on a store: a
  list of arrays, where a reference to an array is its position in the list. The caller's
  batch \<open>X\<close> is a two-dimensional array of the store, one signal per row.
\<close>

type_synonym heap = "real array2 list"

text \<open>
  The filter with its positional arguments is a function from a row to a row that may
  raise and does not write to its argument. \<open>noise\<close> is the keyword argument.
\<close>

record FilterTransformer =
  filter_fn :: "real list \<Rightarrow> error + real list"
  noise :: bool

text \<open>
  \<open>np.empty_like(X)\<close>: a new array of the shape of \<open>X\<close>. numpy leaves its contents unset;
  they are 0 here, and each row is overwritten in the loop.
\<close>

definition empty_like :: "real array2 \<Rightarrow> real array2" where
  "empty_like X =
     \<lparr>nrows = nrows X, ncols = ncols X, rows = replicate (nrows X) (replicate (ncols X) 0)\<rparr>"

text \<open>
  Line 211, \<open>1e-4 * np.random.rand(n) - 0.5\<close>. The draws of \<open>np.random.rand\<close> are the
  values \<open>u 0, u 1, \<dots>\<close>, each in \<open>[0, 1)\<close>.
\<close>

definition noise_vector :: "(nat \<Rightarrow> real) \<Rightarrow> nat \<Rightarrow> real list" where
  "noise_vector u n = map (\<lambda>k. 1 / 10000 * u k - 1 / 2) [0..<n]"

text \<open>\<open>x += v\<close> on a row \<open>x\<close>: elementwise, with a \<open>v\<close> of length one stretched.\<close>

definition iadd :: "real list \<Rightarrow> real list \<Rightarrow> error + real list" where
  "iadd x v =
     (if length v = length x then Inr (map2 (+) x v)
      else (case v of [c] \<Rightarrow> Inr (map (\<lambda>a. a + c) x) | _ \<Rightarrow> Inl ValueError))"

definition set_row :: "nat \<Rightarrow> 'a list \<Rightarrow> 'a array2 \<Rightarrow> 'a array2" where
  "set_row i r A = A\<lparr>rows := (rows A)[i := r]\<rparr>"

text \<open>
  Lines 213 and 214. The loop variable \<open>x\<close> is a view of row \<open>i\<close> of the array at \<open>a\<close>, so
  \<open>x += noise\<close> writes that row of the store.
\<close>

definition add_noise :: "real list option \<Rightarrow> nat \<Rightarrow> nat \<Rightarrow> heap \<Rightarrow> error + heap" where
  "add_noise nz a i h =
     (case nz of
        None \<Rightarrow> Inr h
      | Some v \<Rightarrow>
          (case iadd (rows (h ! a) ! i) v of
             Inl e \<Rightarrow> Inl e
           | Inr x' \<Rightarrow> Inr (h[a := set_row i x' (h ! a)])))"

text \<open>
  The loop of lines 212 to 215 over the row indices still to be processed; \<open>a\<close> is the
  reference of \<open>X\<close> and \<open>out\<close> that of the output. The store is returned also when an
  exception ends the loop.
\<close>

fun filter_loop ::
  "FilterTransformer \<Rightarrow> real list option \<Rightarrow> nat \<Rightarrow> nat \<Rightarrow> nat list \<Rightarrow> heap \<Rightarrow> heap \<times> error option" where
  "filter_loop F nz a out [] h = (h, None)"
| "filter_loop F nz a out (i # is) h =
     (case add_noise nz a i h of
        Inl e \<Rightarrow> (h, Some e)
      | Inr h1 \<Rightarrow>
          (case filter_fn F (rows (h1 ! a) ! i) of
             Inl e \<Rightarrow> (h1, Some e)
           | Inr y \<Rightarrow>
               (case assign_row (ncols (h1 ! out)) y of
                  Inl e \<Rightarrow> (h1, Some e)
                | Inr y' \<Rightarrow> filter_loop F nz a out is (h1[out := set_row i y' (h1 ! out)]))))"

text \<open>
  \<open>transform\<close> on the array at reference \<open>a\<close> of the store \<open>h\<close>, with the random draws
  \<open>u\<close>: the new store and the reference of the output, or the exception.
\<close>

definition FilterTransformer_transform ::
  "FilterTransformer \<Rightarrow> (nat \<Rightarrow> real) \<Rightarrow> nat \<Rightarrow> heap \<Rightarrow> heap \<times> (error + nat)" where
  "FilterTransformer_transform F u a h =
     (let X = h ! a;
          out = length h;
          h0 = h @ [empty_like X];
          nz = (if noise F then Some (noise_vector u (ncols X)) else None)
      in case filter_loop F nz a out [0..<nrows X] h0 of
           (h', None) \<Rightarrow> (h', Inr out)
         | (h', Some e) \<Rightarrow> (h', Inl e))"

section \<open>Three-dimensional batches\<close>

text \<open>
  A three-dimensional numpy array of shape \<open>(dim0, dim1, dim2)\<close>: a batch of \<open>dim0\<close>
  matrices of \<open>dim1\<close> rows and \<open>dim2\<close> columns.
\<close>

record 'a array3 =
  dim0 :: nat
  dim1 :: nat
  dim2 :: nat
  items :: "'a list list list"

definition wf3 :: "'a array3 \<Rightarrow> bool" where
  "wf3 X = (length (items X) = dim0 X
            \<and> list_all (\<lambda>M. length M = dim1 X \<and> list_all (\<lambda>r. length r = dim2 X) M) (items X))"


section \<open>StatsTransformer\<close>






























section \<open>DiffTransformer\<close>

text \<open>The attributes \<open>n\<close> and \<open>flatten\<close>.\<close>

record DiffTransformer =
  diff_n :: int
  diff_flatten :: bool

text \<open>
  The subtraction of the batch's element type is the parameter \<open>sub\<close>: rounded for floats,
  modulo \<open>2 ^ w\<close> for unsigned integers of \<open>w\<close> bits.

  One difference along axis 1, \<open>a[:, 1:, :] - a[:, :-1, :]\<close>. Both slices have
  \<open>dim1 - 1\<close> rows, and none when \<open>dim1\<close> is 0: the subtraction on \<open>nat\<close> is the slice's.
\<close>

definition diff1 :: "('a \<Rightarrow> 'a \<Rightarrow> 'a) \<Rightarrow> 'a array3 \<Rightarrow> 'a array3" where
  "diff1 sub a =
     \<lparr>dim0 = dim0 a, dim1 = dim1 a - 1, dim2 = dim2 a,
      items = map (\<lambda>M. map2 (map2 sub) (tl M) (butlast M)) (items a)\<rparr>"

primrec diff_iter :: "('a \<Rightarrow> 'a \<Rightarrow> 'a) \<Rightarrow> nat \<Rightarrow> 'a array3 \<Rightarrow> 'a array3" where
  "diff_iter sub 0 a = a"
| "diff_iter sub (Suc k) a = diff_iter sub k (diff1 sub a)"

text \<open>
  \<open>np.diff(a, n=n, axis=1)\<close>: the array itself for \<open>n = 0\<close>, ValueError for a negative
  order, and otherwise \<open>n\<close> times the difference.
\<close>

definition np_diff :: "('a \<Rightarrow> 'a \<Rightarrow> 'a) \<Rightarrow> 'a array3 \<Rightarrow> int \<Rightarrow> error + 'a array3" where
  "np_diff sub a k =
     (if k = 0 then Inr a
      else if k < 0 then Inl ValueError
      else Inr (diff_iter sub (nat k) a))"

text \<open>The result of \<open>transform\<close> has two or three dimensions.\<close>

datatype 'a ndarr = Arr2 "'a array2" | Arr3 "'a array3"

definition DiffTransformer_transform ::
  "('a \<Rightarrow> 'a \<Rightarrow> 'a) \<Rightarrow> DiffTransformer \<Rightarrow> 'a array3 \<Rightarrow> error + 'a ndarr" where
  "DiffTransformer_transform sub t X =
     (case np_diff sub X (diff_n t) of
        Inl e \<Rightarrow> Inl e
      | Inr d \<Rightarrow>
          if diff_flatten t
          then Inr (Arr2 \<lparr>nrows = dim0 d, ncols = dim1 d * dim2 d, rows = map concat (items d)\<rparr>)
          else Inr (Arr3 d))"

text \<open>The subtraction of unsigned 8-bit integers, for an example.\<close>

definition sub_uint8 :: "int \<Rightarrow> int \<Rightarrow> int" where
  "sub_uint8 a b = (a - b) mod 256"

section \<open>WhitenerTransformer\<close>

text \<open>
  \<open>__init__\<close> sets \<open>n_components\<close> only. The attribute \<open>pca\<close> is assigned in \<open>fit\<close> (line 129)
  and nowhere else: it is \<open>None\<close> here as long as the object has no such attribute.
\<close>

record 'm WhitenerTransformer =
  n_components :: "nat option"
  pca :: "'m option"

definition WhitenerTransformer_init :: "nat option \<Rightarrow> 'm WhitenerTransformer" where
  "WhitenerTransformer_init n_components' = \<lparr>n_components = n_components', pca = None\<rparr>"

text \<open>\<open>_flatten(X)\<close> without \<open>y\<close>: the shape \<open>(dim0 * dim1, dim2)\<close>.\<close>

definition whitener_flatten :: "'a array3 \<Rightarrow> 'a array2" where
  "whitener_flatten X = \<lparr>nrows = dim0 X * dim1 X, ncols = dim2 X, rows = concat (items X)\<rparr>"

text \<open>
  \<open>Z.reshape([dim0, dim1, -1])\<close>, line 137: the last dimension is the size of \<open>Z\<close> divided
  by \<open>dim0 * dim1\<close>, and numpy raises ValueError when that product is 0 or does not divide
  the size.
\<close>

definition reshape_lead :: "'a array3 \<Rightarrow> 'b array2 \<Rightarrow> error + 'b array3" where
  "reshape_lead X Z =
     (let known = dim0 X * dim1 X; sz = size2 Z
      in if known = 0 \<or> sz mod known \<noteq> 0 then Inl ValueError
         else (let k = sz div known;
                   d = flatten2 Z;
                   rs = map (\<lambda>i. take k (drop (i * k) d)) [0..<known]
               in Inr \<lparr>dim0 = dim0 X, dim1 = dim1 X, dim2 = k,
                        items = map (\<lambda>i. take (dim1 X) (drop (i * dim1 X) rs)) [0..<dim0 X]\<rparr>))"

text \<open>
  \<open>transform\<close>, with the method \<open>transform\<close> of the fitted PCA model as a parameter. The
  attribute \<open>self.pca\<close> is looked up before the argument \<open>self._flatten(X)\<close> is evaluated,
  and the lookup raises AttributeError on an object without it.
\<close>

definition WhitenerTransformer_transform ::
  "('m \<Rightarrow> 'a array2 \<Rightarrow> error + 'b array2) \<Rightarrow> 'm WhitenerTransformer \<Rightarrow> 'a array3 \<Rightarrow> error + 'b array3" where
  "WhitenerTransformer_transform pca_transform t X =
     (case pca t of
        None \<Rightarrow> Inl AttributeError
      | Some m \<Rightarrow>
          (case pca_transform m (whitener_flatten X) of
             Inl e \<Rightarrow> Inl e
           | Inr Z \<Rightarrow> reshape_lead X Z))"

section \<open>FuncTransformer\<close>

text \<open>
  For \<open>reshape\<close> an array of any number of dimensions is its shape and its elements in
  row-major order.
\<close>

record 'a ndarray =
  shape :: "nat list"
  data :: "'a list"

definition wf_ndarray :: "'a ndarray \<Rightarrow> bool" where
  "wf_ndarray A = (length (data A) = prod_list (shape A))"

text \<open>
  \<open>A.reshape(newshape)\<close>. One dimension may be \<open>-1\<close> and is then inferred. numpy raises
  ValueError for another negative dimension, for two unknown dimensions, for an unknown
  dimension that cannot be inferred, and for a shape whose product is not the number of
  elements of \<open>A\<close>.
\<close>

definition reshape :: "int list \<Rightarrow> 'a ndarray \<Rightarrow> error + 'a ndarray" where
  "reshape newshape A =
     (let sz = int (length (data A));
          known = prod_list (filter (\<lambda>d. d \<noteq> - 1) newshape)
      in if list_ex (\<lambda>d. d < - 1) newshape \<or> 1 < length (filter (\<lambda>d. d = - 1) newshape)
         then Inl ValueError
         else if list_ex (\<lambda>d. d = - 1) newshape then
           (if known = 0 \<or> sz mod known \<noteq> 0 then Inl ValueError
            else Inr \<lparr>shape = map (\<lambda>d. nat (if d = - 1 then sz div known else d)) newshape,
                      data = data A\<rparr>)
         else if known = sz then Inr \<lparr>shape = map nat newshape, data = data A\<rparr>
         else Inl ValueError)"

text \<open>The function with its keyword arguments: from an array to an array, or raising.\<close>

record ('a, 'b) FuncTransformer =
  func :: "'a ndarray \<Rightarrow> error + 'b ndarray"

text \<open>
  \<open>transform\<close>, lines 180 to 184. \<open>X.shape[0]\<close> raises IndexError on an array without
  dimensions. The result of line 180 is not used.
\<close>

definition FuncTransformer_transform :: "('a, 'b) FuncTransformer \<Rightarrow> 'a ndarray \<Rightarrow> error + 'b ndarray" where
  "FuncTransformer_transform t X =
     (case shape X of
        [] \<Rightarrow> Inl IndexError
      | s0 # ss \<Rightarrow>
          (case reshape [int s0, - 1] X of
             Inl e \<Rightarrow> Inl e
           | Inr X' \<Rightarrow>
               (case func t X of
                  Inl e \<Rightarrow> Inl e
                | Inr Xt \<Rightarrow> reshape (map int (shape X)) Xt)))"

section \<open>Sample inputs\<close>

text \<open>A batch of one signal with three time steps and two channels.\<close>

definition sample_batch :: "real array3" where
  "sample_batch = \<lparr>dim0 = 1, dim1 = 3, dim2 = 2, items = [[[1, 10], [4, 20], [9, 50]]]\<rparr>"


section \<open>Properties of floating-point numbers\<close>

lemma powi_powr: "(2::real) powi e = 2 powr (of_int e)"
  by (simp add: powr_real_of_int')


lemma binade_eqI:
  assumes "2 powi e \<le> \<bar>x\<bar>" and "\<bar>x\<bar> < 2 powi (e + 1)"
  shows "binade x = e"
proof -
  have "0 < (2::real) powi e" by simp
  then have "0 < \<bar>x\<bar>" using assms(1) by linarith
  then show ?thesis
    using assms floor_log_eq_powr_iff [of "\<bar>x\<bar>" 2 e] by (simp add: binade_def powi_powr)
qed




lemma rnd_at:
  assumes "2 powi e \<le> \<bar>x\<bar>" and "\<bar>x\<bar> < 2 powi (e + 1)"
  shows "rnd F x = of_int (round_half_even (x / 2 powi (max e (emin F) - int (prec F) + 1)))
                     * 2 powi (max e (emin F) - int (prec F) + 1)"
proof -
  have "0 < (2::real) powi e" by simp
  then have "0 < \<bar>x\<bar>" using assms(1) by (rule less_le_trans)
  then have "x \<noteq> 0" by simp
  then show ?thesis
    by (simp add: rnd_def ulp_def binade_eqI [OF assms])
qed



text \<open>Roundings used in the examples below.\<close>

lemma rnd64_10: "rnd binary64 10 = 10"
  by (subst rnd_at [where e = 3]) (simp_all add: binary64_def round_half_even_def)

lemma rnd64_10_d07: "rnd binary64 (10 * d07) = 7"
  by (subst rnd_at [where e = 2]) (simp_all add: d07_def binary64_def round_half_even_def)

lemma rnd64_256: "rnd binary64 256 = 256"
  by (subst rnd_at [where e = 8]) (simp_all add: binary64_def round_half_even_def)

lemma rnd64_256_d03: "rnd binary64 (- (256 * d03)) = - (256 * d03)"
  by (subst rnd_at [where e = 6]) (simp_all add: d03_def binary64_def round_half_even_def)

text \<open>Truncation towards zero: the integer part, with the sign of the number.\<close>

lemma trunc_zero_props:
  "\<bar>of_int (trunc_zero q)\<bar> \<le> \<bar>q\<bar> \<and> \<bar>q\<bar> < \<bar>of_int (trunc_zero q)\<bar> + 1
   \<and> 0 \<le> of_int (trunc_zero q) * q"
proof (cases "0 \<le> q")
  case True
  have t: "trunc_zero q = \<lfloor>q\<rfloor>" using True by (simp add: trunc_zero_def)
  have z: "0 \<le> real_of_int \<lfloor>q\<rfloor>" using True by simp
  have "real_of_int \<lfloor>q\<rfloor> \<le> q" and "q < real_of_int \<lfloor>q\<rfloor> + 1" by linarith+
  then show ?thesis
    unfolding t using True z by simp
next
  case False
  have t: "trunc_zero q = \<lceil>q\<rceil>" using False by (simp add: trunc_zero_def)
  have "\<lceil>q\<rceil> \<le> 0" using False by (simp add: ceiling_le_iff)
  then have z: "real_of_int \<lceil>q\<rceil> \<le> 0" by simp
  have b: "q \<le> real_of_int \<lceil>q\<rceil>" "real_of_int \<lceil>q\<rceil> < q + 1" by linarith+
  have q: "q \<le> 0" using False by simp
  have p: "0 \<le> real_of_int \<lceil>q\<rceil> * q" using z q by (rule mult_nonpos_nonpos)
  have a1: "\<bar>real_of_int \<lceil>q\<rceil>\<bar> = - real_of_int \<lceil>q\<rceil>" using z by simp
  have a2: "\<bar>q\<bar> = - q" using q by simp
  show ?thesis
    unfolding t a1 a2 using b p by simp
qed

section \<open>Properties of SpectrogramTransformer\<close>

text \<open>
  On an ascending array \<open>searchsorted_right\<close> returns the index that separates the
  elements \<open>\<le> v\<close> from the elements above \<open>v\<close>.
\<close>

lemma bsearch_right_partition:
  assumes "sorted a" and "lo \<le> hi" and "hi \<le> length a"
    and "\<And>i. i < lo \<Longrightarrow> a ! i \<le> v"
    and "\<And>i. hi \<le> i \<Longrightarrow> i < length a \<Longrightarrow> v < a ! i"
  shows "bsearch_right a v lo hi \<le> length a
         \<and> (\<forall>i < bsearch_right a v lo hi. a ! i \<le> v)
         \<and> (\<forall>i. bsearch_right a v lo hi \<le> i \<and> i < length a \<longrightarrow> v < a ! i)"
  using assms
proof (induction a v lo hi rule: bsearch_right.induct)
  case (1 a v lo hi)
  show ?case
  proof (cases "lo < hi")
    case False
    then have "bsearch_right a v lo hi = lo" by simp
    moreover have "lo = hi" using False "1.prems"(2) by simp
    ultimately show ?thesis using "1.prems" by auto
  next
    case True
    define mid where "mid = lo + (hi - lo) div 2"
    have m: "lo \<le> mid" "mid < hi" using True by (simp_all add: mid_def) 
    show ?thesis
    proof (cases "a ! mid \<le> v")
      case le: True
      have below: "a ! i \<le> v" if "i < mid + 1" for i
      proof -
        have "a ! i \<le> a ! mid"
          using that m "1.prems"(1,3) by (intro sorted_nth_mono) simp_all
        then show ?thesis using le by simp
      qed
      have "bsearch_right a v lo hi = bsearch_right a v (mid + 1) hi"
        using True le by (subst bsearch_right.simps) (simp add: mid_def Let_def)
      moreover have "bsearch_right a v (mid + 1) hi \<le> length a
         \<and> (\<forall>i < bsearch_right a v (mid + 1) hi. a ! i \<le> v)
         \<and> (\<forall>i. bsearch_right a v (mid + 1) hi \<le> i \<and> i < length a \<longrightarrow> v < a ! i)"
        using True le m "1.prems" below
        by (intro "1.IH"(1) [OF True mid_def]) simp_all
      ultimately show ?thesis by simp
    next
      case gt: False
      have above: "v < a ! i" if "mid \<le> i" and "i < length a" for i
      proof -
        have "a ! mid \<le> a ! i"
          using that "1.prems"(1) by (intro sorted_nth_mono) simp_all
        then show ?thesis using gt by simp
      qed
      have "bsearch_right a v lo hi = bsearch_right a v lo mid"
        using True gt by (subst bsearch_right.simps) (simp add: mid_def Let_def)
      moreover have "bsearch_right a v lo mid \<le> length a
         \<and> (\<forall>i < bsearch_right a v lo mid. a ! i \<le> v)
         \<and> (\<forall>i. bsearch_right a v lo mid \<le> i \<and> i < length a \<longrightarrow> v < a ! i)"
        using True gt m "1.prems" above
        by (intro "1.IH"(2) [OF True mid_def]) simp_all
      ultimately show ?thesis by simp
    qed
  qed
qed

lemma searchsorted_right_sorted:
  assumes "sorted a"
  shows "searchsorted_right a v \<le> length a
         \<and> (\<forall>i < searchsorted_right a v. a ! i \<le> v)
         \<and> (\<forall>i. searchsorted_right a v \<le> i \<and> i < length a \<longrightarrow> v < a ! i)"
  unfolding searchsorted_right_def using assms by (intro bsearch_right_partition) simp_all

lemma clip_step_rows: "nrows (clip_step c freqs P) \<le> nrows P"
  by (simp add: clip_step_def take_rows_def)

lemma clip_step_length: "length (rows (clip_step c freqs P)) \<le> length (rows P)"
  by (simp add: clip_step_def take_rows_def)

lemma clip_step_off: "1000 \<le> c \<Longrightarrow> clip_step c freqs P = P"
  by (simp add: clip_step_def)

lemma post_process_off:
  "1000 \<le> clip t \<Longrightarrow> post_process L t = post_process_clip_disabled L t"
  by (intro ext) (simp add: post_process_def post_process_clip_disabled_def clip_step_off)

text \<open>
  C10. On an empty batch the loop body never runs: \<open>transform\<close> returns \<open>None\<close>, the
  placeholder, and no array, whatever the configuration and the library.
\<close>

theorem transform_empty_batch_is_None:
  "SpectrogramTransformer_transform L t [] = Inr None"
  by (simp add: SpectrogramTransformer_transform_def)

text \<open>
  C1, as stated, fails on the empty batch: the construction with \<open>NFFT = 256\<close> and
  \<open>noverlap = 300\<close> succeeds and stores 300, and the first \<open>transform\<close>, on a batch without
  signals, returns \<open>None\<close> and raises nothing, with a library that refuses every call with
  \<open>noverlap \<ge> NFFT\<close>.
\<close>

theorem noverlap_not_rejected_counterexample:
  "SpectrogramTransformer_init None 256 (PyInt 300) 1000 id True True False PyNone
     = Inr (sample_transformer (PyInt 300) 1000)
   \<and> ge_int (noverlap (sample_transformer (PyInt 300) 1000))
        (NFFT (sample_transformer (PyInt 300) 1000))
   \<and> SpectrogramTransformer_transform sample_mlab (sample_transformer (PyInt 300) 1000) []
       = Inr None"
  by (simp add: sample_transformer_def SpectrogramTransformer_init_def
        SpectrogramTransformer_transform_def)

text \<open>
  C1, amended. For every transformer with \<open>noverlap \<ge> NFFT\<close>, every spectrum and every
  batch: on a batch with at least one signal \<open>transform\<close> fails with the error of the
  library's check, raised for the first signal; on the empty batch it returns \<open>None\<close>; on
  no batch does it return an output array.
\<close>

theorem invalid_overlap_rejected_at_first_signal:
  assumes "ge_int (noverlap t) (NFFT t)"
  shows "(X \<noteq> [] \<longrightarrow>
            SpectrogramTransformer_transform (matplotlib spectrum db) t X = Inl ValueError)
         \<and> (X = [] \<longrightarrow> SpectrogramTransformer_transform (matplotlib spectrum db) t X = Inr None)
         \<and> (\<forall>B. SpectrogramTransformer_transform (matplotlib spectrum db) t X \<noteq> Inr (Some B))"
proof (cases X)
  case Nil
  then show ?thesis by (simp add: SpectrogramTransformer_transform_def)
next
  case (Cons X_i rest)
  have "specgram (matplotlib spectrum db) X_i (NFFT t) 2000 (pad_to t) (noverlap t)
          (resolve_window (window t)) = Inl ValueError"
    using assms by (simp add: matplotlib_def mlab_specgram_def)
  then show ?thesis
    using Cons by (simp add: SpectrogramTransformer_transform_def)
qed

theorem invalid_overlap_rejected_at_first_signal_witness:
  "ge_int (noverlap (sample_transformer (PyInt 300) 1000))
        (NFFT (sample_transformer (PyInt 300) 1000))
   \<and> SpectrogramTransformer_transform sample_mlab (sample_transformer (PyInt 300) 1000) [[0, 0]]
       = Inl ValueError"
proof -
  have h: "ge_int (noverlap (sample_transformer (PyInt 300) 1000))
        (NFFT (sample_transformer (PyInt 300) 1000))"
    by (simp add: sample_transformer_def)
  show ?thesis
    using h invalid_overlap_rejected_at_first_signal
      [OF h, of "[[0, 0]]" sample_spectrum "\<lambda>v. 2 * v"]
    by (simp add: sample_mlab_def)
qed

text \<open>
  C2. The clip step never adds frequency rows, and with \<open>clip \<ge> 1000\<close> it returns the
  spectrogram as it is, so that \<open>transform\<close> gives the output of the transform with
  clipping disabled.
\<close>

theorem clip_never_adds_rows_and_is_off_from_1000:
  "nrows (clip_step (clip t) freqs P) \<le> nrows P
   \<and> length (rows (clip_step (clip t) freqs P)) \<le> length (rows P)
   \<and> (1000 \<le> clip t \<longrightarrow>
        clip_step (clip t) freqs P = P
        \<and> SpectrogramTransformer_transform L t X = transform_clip_disabled L t X)"
  by (simp add: clip_step_rows clip_step_length clip_step_off post_process_off
        SpectrogramTransformer_transform_def transform_clip_disabled_def)

theorem clip_never_adds_rows_and_is_off_from_1000_witness:
  "(1000::real) \<le> clip (sample_transformer (PyInt 200) 1000)
   \<and> SpectrogramTransformer_transform sample_mlab (sample_transformer (PyInt 200) 1000) [[0, 0]]
       = transform_clip_disabled sample_mlab (sample_transformer (PyInt 200) 1000) [[0, 0]]
   \<and> SpectrogramTransformer_transform sample_mlab (sample_transformer (PyInt 200) 1000) [[0, 0]]
       = Inr (Some (Buf2 1 6 [Some [2, 4, 6, 8, 10, 12]]))"
proof -
  have h: "(1000::real) \<le> clip (sample_transformer (PyInt 200) 1000)"
    by (simp add: sample_transformer_def)
  have v: "SpectrogramTransformer_transform sample_mlab (sample_transformer (PyInt 200) 1000) [[0, 0]]
       = Inr (Some (Buf2 1 6 [Some [2, 4, 6, 8, 10, 12]]))"
    by (simp add: SpectrogramTransformer_transform_def sample_transformer_def sample_mlab_def
          matplotlib_def mlab_specgram_def sample_spectrum_def resolve_window_def
          post_process_def clip_step_def map2d_def allocate_def store_def size2_def
          flatten2_def assign_row_def)
  have e: "SpectrogramTransformer_transform sample_mlab (sample_transformer (PyInt 200) 1000) [[0, 0]]
       = transform_clip_disabled sample_mlab (sample_transformer (PyInt 200) 1000) [[0, 0]]"
    using h clip_never_adds_rows_and_is_off_from_1000
      [of "sample_transformer (PyInt 200) 1000" "[]" "\<lparr>nrows = 0, ncols = 0, rows = []\<rparr>"
          sample_mlab "[[0, 0]]"]
    by blast
  show ?thesis
    using h e v by blast
qed

text \<open>The clip step at work: with \<open>clip = 600\<close> the row of 1000 Hz is dropped.\<close>

lemma clip_600_example:
  "SpectrogramTransformer_transform sample_mlab (sample_transformer (PyInt 200) 600) [[0, 0]]
     = Inr (Some (Buf2 1 4 [Some [2, 4, 6, 8]]))"
  by (simp add: SpectrogramTransformer_transform_def sample_transformer_def sample_mlab_def
        matplotlib_def mlab_specgram_def sample_spectrum_def resolve_window_def
        post_process_def clip_step_def map2d_def allocate_def store_def size2_def
        flatten2_def assign_row_def take_rows_def searchsorted_right_def)

text \<open>
  C5. For a \<open>noverlap\<close> argument below one, \<open>__init__\<close> stores an \<open>int\<close>. For an \<open>int\<close>
  argument it is the product with \<open>NFFT\<close>. For a float argument it is the double product
  \<open>NFFT * noverlap\<close> cut off towards zero: the integer \<open>z\<close> with \<open>|z| \<le> |q| < |z| + 1\<close>
  and the sign of the product \<open>q\<close>, as long as the product is finite. An argument that
  is not below one is stored as it is.
\<close>

theorem init_noverlap_fraction:
  "(i < 1 \<longrightarrow>
      (\<exists>t. SpectrogramTransformer_init p n (PyInt i) c d lg fl tr w = Inr t
           \<and> noverlap t = PyInt (n * i)))
   \<and> (r < 1 \<and> \<bar>rnd binary64 (of_int n)\<bar> < 2 ^ 1024 \<and> \<bar>float_product n r\<bar> < 2 ^ 1024 \<longrightarrow>
      (\<exists>t z. SpectrogramTransformer_init p n (PyFloat r) c d lg fl tr w = Inr t
           \<and> noverlap t = PyInt z
           \<and> \<bar>of_int z\<bar> \<le> \<bar>float_product n r\<bar>
           \<and> \<bar>float_product n r\<bar> < \<bar>of_int z\<bar> + 1
           \<and> 0 \<le> of_int z * float_product n r))
   \<and> (\<not> lt_one nov \<longrightarrow>
      (\<exists>t. SpectrogramTransformer_init p n nov c d lg fl tr w = Inr t \<and> noverlap t = nov))"
proof (intro conjI impI)
  assume "i < 1"
  then show "\<exists>t. SpectrogramTransformer_init p n (PyInt i) c d lg fl tr w = Inr t
           \<and> noverlap t = PyInt (n * i)"
    by (simp add: SpectrogramTransformer_init_def)
next
  let ?q = "float_product n r"
  assume a: "r < 1 \<and> \<bar>rnd binary64 (of_int n)\<bar> < 2 ^ 1024 \<and> \<bar>?q\<bar> < 2 ^ 1024"
  then have fin: "to_double ?q = PyFloat ?q"
    by (auto simp: to_double_def)
  have "\<exists>t. SpectrogramTransformer_init p n (PyFloat r) c d lg fl tr w = Inr t
           \<and> noverlap t = PyInt (trunc_zero ?q)"
    using a by (simp add: SpectrogramTransformer_init_def fin)
  then show "\<exists>t z. SpectrogramTransformer_init p n (PyFloat r) c d lg fl tr w = Inr t
           \<and> noverlap t = PyInt z
           \<and> \<bar>of_int z\<bar> \<le> \<bar>?q\<bar> \<and> \<bar>?q\<bar> < \<bar>of_int z\<bar> + 1 \<and> 0 \<le> of_int z * ?q"
    using trunc_zero_props [of ?q] by blast
next
  assume "\<not> lt_one nov"
  then show "\<exists>t. SpectrogramTransformer_init p n nov c d lg fl tr w = Inr t \<and> noverlap t = nov"
    by (simp add: SpectrogramTransformer_init_def)
qed

text \<open>
  With \<open>NFFT = 10\<close> and \<open>noverlap = 0.7\<close> the double product is 7.0, and 7 is stored; the
  product of the two real numbers is below 7. With \<open>NFFT = 256\<close> and \<open>noverlap = -0.3\<close>
  the product -76.8 is cut to -76. The \<open>int\<close> 200 is kept.
\<close>

theorem init_noverlap_fraction_witness:
  "map_sum id noverlap
     (SpectrogramTransformer_init None 10 (PyFloat d07) 1000 (id :: real \<Rightarrow> real) True True False
        (PyNone :: unit window)) = Inr (PyInt 7)
   \<and> real_of_int 10 * d07 < 7
   \<and> map_sum id noverlap
     (SpectrogramTransformer_init None 256 (PyFloat (- d03)) 1000 (id :: real \<Rightarrow> real) True True
        False (PyNone :: unit window)) = Inr (PyInt (- 76))
   \<and> map_sum id noverlap
     (SpectrogramTransformer_init None 256 (PyInt 200) 1000 (id :: real \<Rightarrow> real) True True False
        (PyNone :: unit window)) = Inr (PyInt 200)"
proof -
  have q1: "float_product 10 d07 = 7"
    by (simp add: float_product_def rnd64_10 rnd64_10_d07)
  have q2: "float_product 256 (- d03) = - (256 * d03)"
    by (simp add: float_product_def rnd64_256 rnd64_256_d03)
  have v2: "- (256 * d03) = - (5404319552844595 / 70368744177664)"
    by (simp add: d03_def)
  have h1: "d07 < 1 \<and> \<bar>rnd binary64 (of_int 10)\<bar> < 2 ^ 1024 \<and> \<bar>float_product 10 d07\<bar> < 2 ^ 1024"
    by (simp add: q1 rnd64_10) (simp add: d07_def)
  have h2: "- d03 < 1 \<and> \<bar>rnd binary64 (of_int 256)\<bar> < 2 ^ 1024
              \<and> \<bar>float_product 256 (- d03)\<bar> < 2 ^ 1024"
    by (simp add: q2 v2 rnd64_256) (simp add: d03_def)
  have h3: "\<not> lt_one (PyInt 200)"
    by simp
  obtain t1 z1
    where t1: "SpectrogramTransformer_init None 10 (PyFloat d07) 1000 (id :: real \<Rightarrow> real)
                 True True False (PyNone :: unit window) = Inr t1"
      and n1: "noverlap t1 = PyInt z1"
      and b1: "\<bar>real_of_int z1\<bar> \<le> \<bar>7\<bar>" "\<bar>7\<bar> < \<bar>real_of_int z1\<bar> + 1"
              "0 \<le> real_of_int z1 * 7"
    using init_noverlap_fraction
      [of 0 None 10 1000 "id :: real \<Rightarrow> real" True True False "PyNone :: unit window" d07 PyNaN]
      h1 unfolding q1 by blast
  have "z1 = 7" using b1 by (simp add: zero_le_mult_iff, linarith?)
  then have r1: "map_sum id noverlap
     (SpectrogramTransformer_init None 10 (PyFloat d07) 1000 (id :: real \<Rightarrow> real) True True False
        (PyNone :: unit window)) = Inr (PyInt 7)"
    using t1 n1 by simp
  obtain t2 z2
    where t2: "SpectrogramTransformer_init None 256 (PyFloat (- d03)) 1000 (id :: real \<Rightarrow> real)
                 True True False (PyNone :: unit window) = Inr t2"
      and n2: "noverlap t2 = PyInt z2"
      and b2: "\<bar>real_of_int z2\<bar> \<le> \<bar>- (5404319552844595 / 70368744177664)\<bar>"
              "\<bar>- (5404319552844595 / 70368744177664)\<bar> < \<bar>real_of_int z2\<bar> + 1"
              "0 \<le> real_of_int z2 * - (5404319552844595 / 70368744177664)"
    using init_noverlap_fraction
      [of 0 None 256 1000 "id :: real \<Rightarrow> real" True True False "PyNone :: unit window" "- d03" PyNaN]
      h2 unfolding q2 v2 by blast
  have "z2 = - 76" using b2 by (simp add: zero_le_mult_iff, linarith?)
  then have r2: "map_sum id noverlap
     (SpectrogramTransformer_init None 256 (PyFloat (- d03)) 1000 (id :: real \<Rightarrow> real) True True
        False (PyNone :: unit window)) = Inr (PyInt (- 76))"
    using t2 n2 by simp
  have r3: "map_sum id noverlap
     (SpectrogramTransformer_init None 256 (PyInt 200) 1000 (id :: real \<Rightarrow> real) True True False
        (PyNone :: unit window)) = Inr (PyInt 200)"
    using init_noverlap_fraction
      [of 0 None 256 1000 "id :: real \<Rightarrow> real" True True False "PyNone :: unit window" 0 "PyInt 200"]
      h3 by auto
  have lt: "real_of_int 10 * d07 < 7"
    by (simp add: d07_def)
  show ?thesis
    using r1 lt r2 r3 by blast
qed

text \<open>An infinite argument below one makes the construction fail.\<close>

lemma init_negative_infinity:
  "map_sum id noverlap
     (SpectrogramTransformer_init None 256 PyNegInf 1000 (id :: real \<Rightarrow> real) True True False
        (PyNone :: unit window)) = Inl OverflowError"
  by (simp add: SpectrogramTransformer_init_def rnd64_256)

section \<open>Properties of FilterTransformer\<close>

text \<open>Without noise the loop writes the output array only.\<close>

lemma filter_loop_frame:
  "a \<noteq> out \<Longrightarrow> fst (filter_loop F None a out is h) ! a = h ! a"
proof (induction "is" arbitrary: h)
  case Nil
  then show ?case by simp
next
  case (Cons i "is")
  then show ?case
    by (simp add: add_noise_def split: sum.splits)
qed

lemma transform_without_noise_frame:
  assumes "\<not> noise F" and "a < length h"
  shows "fst (FilterTransformer_transform F u a h) ! a = h ! a"
proof -
  let ?h0 = "h @ [empty_like (h ! a)]"
  have ne: "a \<noteq> length h" using assms(2) by simp
  have "fst (filter_loop F None a (length h) [0..<nrows (h ! a)] ?h0) ! a = ?h0 ! a"
    using ne by (rule filter_loop_frame)
  moreover have "?h0 ! a = h ! a"
    using assms(2) by (simp add: nth_append)
  ultimately show ?thesis
    using assms(1)
    by (auto simp: FilterTransformer_transform_def Let_def split: prod.splits option.splits)
qed

text \<open>Every element of the noise vector lies in \<open>[-0.5, -0.4999)\<close>.\<close>

lemma noise_vector_range:
  assumes "k < n" and "0 \<le> u k" and "u k < 1"
  shows "- (1 / 2) \<le> noise_vector u n ! k \<and> noise_vector u n ! k < - (4999 / 10000)"
  using assms by (simp add: noise_vector_def)

text \<open>
  One noise vector is drawn for the call and added to each row: with the draws 0 and 0.5
  both rows of a 2 by 2 batch are shifted by \<open>[-0.5, -0.49995]\<close>.
\<close>

lemma noise_same_vector_example:
  "FilterTransformer_transform \<lparr>filter_fn = Inr, noise = True\<rparr> (\<lambda>k. real k / 2) 0
       [\<lparr>nrows = 2, ncols = 2, rows = [[0, 1], [2, 3]]\<rparr>]
     = ([\<lparr>nrows = 2, ncols = 2, rows = [[- (1 / 2), 1 - 9999 / 20000], [2 - 1 / 2, 3 - 9999 / 20000]]\<rparr>,
         \<lparr>nrows = 2, ncols = 2, rows = [[- (1 / 2), 1 - 9999 / 20000], [2 - 1 / 2, 3 - 9999 / 20000]]\<rparr>], Inr 1)"
  by (simp add: FilterTransformer_transform_def empty_like_def noise_vector_def add_noise_def
        iadd_def set_row_def assign_row_def upt_rec numeral_2_eq_2)

text \<open>
  C3. With noise enabled, \<open>transform\<close> changes the caller's array: on the store holding
  the 1 by 1 batch \<open>[[0]]\<close> at reference 0, with the identity filter and the draw 0, the
  array at reference 0 is \<open>[[-0.5]]\<close> afterwards; the output is the new array at
  reference 1.
\<close>

theorem transform_with_noise_changes_input:
  "FilterTransformer_transform \<lparr>filter_fn = Inr, noise = True\<rparr> (\<lambda>k. 0) 0
       [\<lparr>nrows = 1, ncols = 1, rows = [[0]]\<rparr>]
     = ([\<lparr>nrows = 1, ncols = 1, rows = [[- (1 / 2)]]\<rparr>,
         \<lparr>nrows = 1, ncols = 1, rows = [[- (1 / 2)]]\<rparr>], Inr 1)"
  by (simp add: FilterTransformer_transform_def empty_like_def noise_vector_def add_noise_def
        iadd_def set_row_def assign_row_def)

text \<open>
  C4. The noise of line 211 is not centred on zero: for the draw 0 the vector is
  \<open>[-0.5]\<close>, below \<open>-0.5e-4\<close>.
\<close>

theorem noise_vector_is_offset:
  "noise_vector (\<lambda>k. 0) 1 = [- (1 / 2)]
   \<and> list_all (\<lambda>v. v < - (1 / 20000)) (noise_vector (\<lambda>k. 0) 1)"
  by (simp add: noise_vector_def)

section \<open>Properties of StatsTransformer\<close>



































section \<open>Properties of DiffTransformer\<close>

lemma in_set_tl: "x \<in> set (tl xs) \<Longrightarrow> x \<in> set xs"
  by (cases xs) auto

lemma diff1_dims:
  "dim0 (diff1 sub a) = dim0 a" "dim1 (diff1 sub a) = dim1 a - 1" "dim2 (diff1 sub a) = dim2 a"
  by (simp_all add: diff1_def)

lemma diff1_wf:
  assumes "wf3 a"
  shows "wf3 (diff1 sub a)"
proof -
  have len: "length (items a) = dim0 a"
    and rows: "\<And>M. M \<in> set (items a) \<Longrightarrow> length M = dim1 a"
    and cols: "\<And>M r. M \<in> set (items a) \<Longrightarrow> r \<in> set M \<Longrightarrow> length r = dim2 a"
    using assms by (auto simp: wf3_def list_all_iff)
  have "length (map2 (map2 sub) (tl M) (butlast M)) = dim1 a - 1" if "M \<in> set (items a)" for M
    using rows [OF that] by simp
  moreover have "length r = dim2 a"
    if "M \<in> set (items a)" and "r \<in> set (map2 (map2 sub) (tl M) (butlast M))" for M r
  proof -
    from that(2) obtain p q
      where pq: "(p, q) \<in> set (zip (tl M) (butlast M))" and r: "r = map2 sub p q"
      by auto
    have "p \<in> set (tl M)" and "q \<in> set (butlast M)"
      using pq by (auto dest: set_zip_leftD set_zip_rightD)
    then have "p \<in> set M" and "q \<in> set M"
      by (auto dest: in_set_butlastD in_set_tl)
    then show ?thesis
      using cols [OF that(1)] r by simp
  qed
  ultimately show ?thesis
    using len by (auto simp: wf3_def diff1_def list_all_iff)
qed

lemma diff_iter_wf: "wf3 a \<Longrightarrow> wf3 (diff_iter sub k a)"
  by (induction k arbitrary: a) (simp_all add: diff1_wf)

lemma diff_iter_dims:
  "dim0 (diff_iter sub k a) = dim0 a" "dim1 (diff_iter sub k a) = dim1 a - k"
  "dim2 (diff_iter sub k a) = dim2 a"
  by (induction k arbitrary: a) (simp_all add: diff1_dims)

text \<open>The difference of order \<open>k + 1\<close> is one difference of the difference of order \<open>k\<close>.\<close>

lemma diff_iter_Suc: "diff_iter sub (Suc k) a = diff1 sub (diff_iter sub k a)"
proof -
  have "diff_iter sub k (diff1 sub a) = diff1 sub (diff_iter sub k a)" for a
    by (induction k arbitrary: a) simp_all
  then show ?thesis by simp
qed

text \<open>One difference subtracts each time step from the next one.\<close>

lemma diff1_nth:
  assumes "wf3 a" and "i < dim0 a" and "k + 1 < dim1 a" and "c < dim2 a"
  shows "items (diff1 sub a) ! i ! k ! c = sub (items a ! i ! (k + 1) ! c) (items a ! i ! k ! c)"
proof -
  let ?M = "items a ! i"
  have i: "i < length (items a)" using assms(1,2) by (simp add: wf3_def)
  then have M: "?M \<in> set (items a)" by simp
  have lM: "length ?M = dim1 a"
    using assms(1) M by (auto simp: wf3_def list_all_iff)
  have lr: "\<And>r. r \<in> set ?M \<Longrightarrow> length r = dim2 a"
    using assms(1) M by (auto simp: wf3_def list_all_iff)
  have k1: "k + 1 < length ?M" and k0: "k < length ?M" using assms(3) lM by simp_all
  have c1: "c < length (?M ! (k + 1))" and c0: "c < length (?M ! k)"
    using lr k1 k0 assms(4) by (simp_all del: One_nat_def)
  have "items (diff1 sub a) ! i ! k = map2 sub (tl ?M ! k) (butlast ?M ! k)"
    using i k1 by (simp add: diff1_def)
  also have "tl ?M ! k = ?M ! (k + 1)" using k1 by (simp add: nth_tl)
  also have "butlast ?M ! k = ?M ! k" using k1 by (simp add: nth_butlast)
  finally show ?thesis using c1 c0 by simp
qed

text \<open>
  C7, as stated, fails for an order above the length of the time axis: with one time
  step and \<open>n = 2\<close> the output has no time step, which is not \<open>1 - 2\<close>.
\<close>

theorem diff_order_above_length_counterexample:
  "DiffTransformer_transform (-) \<lparr>diff_n = 2, diff_flatten = False\<rparr>
       \<lparr>dim0 = 1, dim1 = 1, dim2 = 1, items = [[[5 :: real]]]\<rparr>
     = Inr (Arr3 \<lparr>dim0 = 1, dim1 = 0, dim2 = 1, items = [[]]\<rparr>)
   \<and> int 0 \<noteq> int 1 - 2"
  by (simp add: DiffTransformer_transform_def np_diff_def diff1_def numeral_2_eq_2)

text \<open>
  C7, amended. For a batch with \<open>T\<close> time steps, in the arithmetic of its element type: a
  negative order raises ValueError. For an order \<open>n \<ge> 0\<close>, \<open>transform\<close> computes the array
  \<open>d\<close> of the \<open>n\<close>-fold difference along the time axis, returned as it is or with its last
  two axes flattened. \<open>d\<close> has the other dimensions of the batch and \<open>T - n\<close> time steps,
  or none when \<open>n > T\<close>. The difference of order \<open>k + 1\<close> at time \<open>j\<close> is the difference
  of order \<open>k\<close> at time \<open>j + 1\<close> minus the one at time \<open>j\<close>, for every \<open>k < n\<close>; the
  difference of order 0 is the batch, so that for \<open>n = 1\<close> each element is
  \<open>x[j + 1] - x[j]\<close>.
\<close>

theorem diff_transform_every_order:
  assumes "wf3 X"
  shows "(diff_n t < 0 \<longrightarrow> DiffTransformer_transform sub t X = Inl ValueError)
         \<and> (0 \<le> diff_n t \<longrightarrow>
             (\<exists>d. d = diff_iter sub (nat (diff_n t)) X
                \<and> DiffTransformer_transform sub t X =
                    Inr (if diff_flatten t
                         then Arr2 \<lparr>nrows = dim0 d, ncols = dim1 d * dim2 d,
                                    rows = map concat (items d)\<rparr>
                         else Arr3 d)
                \<and> wf3 d \<and> dim0 d = dim0 X \<and> dim2 d = dim2 X
                \<and> int (dim1 d) = (if diff_n t \<le> int (dim1 X) then int (dim1 X) - diff_n t else 0)
                \<and> diff_iter sub 0 X = X
                \<and> (\<forall>k<nat (diff_n t). \<forall>i<dim0 X. \<forall>j. j + 1 < dim1 (diff_iter sub k X) \<longrightarrow>
                     (\<forall>c<dim2 X.
                        items (diff_iter sub (Suc k) X) ! i ! j ! c =
                          sub (items (diff_iter sub k X) ! i ! (j + 1) ! c)
                              (items (diff_iter sub k X) ! i ! j ! c)))))"
proof (intro conjI impI)
  assume "diff_n t < 0"
  then show "DiffTransformer_transform sub t X = Inl ValueError"
    by (simp add: DiffTransformer_transform_def np_diff_def)
next
  assume n: "0 \<le> diff_n t"
  let ?d = "diff_iter sub (nat (diff_n t)) X"
  have tr: "DiffTransformer_transform sub t X =
               Inr (if diff_flatten t
                    then Arr2 \<lparr>nrows = dim0 ?d, ncols = dim1 ?d * dim2 ?d,
                               rows = map concat (items ?d)\<rparr>
                    else Arr3 ?d)"
    using n by (simp add: DiffTransformer_transform_def np_diff_def)
  have dims: "int (dim1 ?d) = (if diff_n t \<le> int (dim1 X) then int (dim1 X) - diff_n t else 0)"
    using n by (simp add: diff_iter_dims)
  have step: "items (diff_iter sub (Suc k) X) ! i ! j ! c =
                sub (items (diff_iter sub k X) ! i ! (j + 1) ! c)
                    (items (diff_iter sub k X) ! i ! j ! c)"
    if "i < dim0 X" and "j + 1 < dim1 (diff_iter sub k X)" and "c < dim2 X" for k i j c
  proof -
    have w: "wf3 (diff_iter sub k X)" by (rule diff_iter_wf [OF assms])
    have i: "i < dim0 (diff_iter sub k X)" and c: "c < dim2 (diff_iter sub k X)"
      using that by (simp_all add: diff_iter_dims)
    show ?thesis
      unfolding diff_iter_Suc by (rule diff1_nth [OF w i that(2) c])
  qed
  show "\<exists>d. d = ?d
          \<and> DiffTransformer_transform sub t X =
              Inr (if diff_flatten t
                   then Arr2 \<lparr>nrows = dim0 d, ncols = dim1 d * dim2 d, rows = map concat (items d)\<rparr>
                   else Arr3 d)
          \<and> wf3 d \<and> dim0 d = dim0 X \<and> dim2 d = dim2 X
          \<and> int (dim1 d) = (if diff_n t \<le> int (dim1 X) then int (dim1 X) - diff_n t else 0)
          \<and> diff_iter sub 0 X = X
          \<and> (\<forall>k<nat (diff_n t). \<forall>i<dim0 X. \<forall>j. j + 1 < dim1 (diff_iter sub k X) \<longrightarrow>
               (\<forall>c<dim2 X.
                  items (diff_iter sub (Suc k) X) ! i ! j ! c =
                    sub (items (diff_iter sub k X) ! i ! (j + 1) ! c)
                        (items (diff_iter sub k X) ! i ! j ! c)))"
    using tr dims step diff_iter_wf [OF assms, of sub "nat (diff_n t)"]
    by (simp add: diff_iter_dims)
qed

text \<open>
  On the sample batch: the first difference, the ValueError of a negative order, and an
  order above the three time steps.
\<close>

theorem diff_transform_every_order_witness:
  "wf3 sample_batch
   \<and> DiffTransformer_transform (-) \<lparr>diff_n = 1, diff_flatten = False\<rparr> sample_batch
       = Inr (Arr3 \<lparr>dim0 = 1, dim1 = 2, dim2 = 2, items = [[[3, 10], [5, 30]]]\<rparr>)
   \<and> DiffTransformer_transform (-) \<lparr>diff_n = - 1, diff_flatten = False\<rparr> sample_batch
       = Inl ValueError
   \<and> DiffTransformer_transform (-) \<lparr>diff_n = 5, diff_flatten = False\<rparr> sample_batch
       = Inr (Arr3 \<lparr>dim0 = 1, dim1 = 0, dim2 = 2, items = [[]]\<rparr>)"
proof -
  have w: "wf3 sample_batch"
    by (simp add: wf3_def sample_batch_def)
  have d1: "diff_iter (-) (nat 1) sample_batch
             = \<lparr>dim0 = 1, dim1 = 2, dim2 = 2, items = [[[3, 10], [5, 30]]]\<rparr>"
    by (simp add: sample_batch_def diff1_def)
  have d5: "diff_iter (-) (nat 5) sample_batch
             = \<lparr>dim0 = 1, dim1 = 0, dim2 = 2, items = [[]]\<rparr>"
    by (simp add: sample_batch_def diff1_def eval_nat_numeral)
  have r1: "DiffTransformer_transform (-) \<lparr>diff_n = 1, diff_flatten = False\<rparr> sample_batch
       = Inr (Arr3 \<lparr>dim0 = 1, dim1 = 2, dim2 = 2, items = [[[3, 10], [5, 30]]]\<rparr>)"
    using diff_transform_every_order [OF w, of "\<lparr>diff_n = 1, diff_flatten = False\<rparr>" "(-)"] d1
    by simp
  have r2: "DiffTransformer_transform (-) \<lparr>diff_n = - 1, diff_flatten = False\<rparr> sample_batch
       = Inl ValueError"
    using diff_transform_every_order [OF w, of "\<lparr>diff_n = - 1, diff_flatten = False\<rparr>" "(-)"]
    by simp
  have r3: "DiffTransformer_transform (-) \<lparr>diff_n = 5, diff_flatten = False\<rparr> sample_batch
       = Inr (Arr3 \<lparr>dim0 = 1, dim1 = 0, dim2 = 2, items = [[]]\<rparr>)"
    using diff_transform_every_order [OF w, of "\<lparr>diff_n = 5, diff_flatten = False\<rparr>" "(-)"] d5
    by simp
  show ?thesis
    using w r1 r2 r3 by blast
qed

text \<open>On a batch of unsigned 8-bit integers the subtraction wraps: 0 - 1 is 255.\<close>

lemma diff_uint8_example:
  "DiffTransformer_transform sub_uint8 \<lparr>diff_n = 1, diff_flatten = False\<rparr>
       \<lparr>dim0 = 1, dim1 = 2, dim2 = 1, items = [[[1], [0]]]\<rparr>
     = Inr (Arr3 \<lparr>dim0 = 1, dim1 = 1, dim2 = 1, items = [[[255]]]\<rparr>)"
  by (simp add: DiffTransformer_transform_def np_diff_def diff1_def sub_uint8_def)

section \<open>Properties of WhitenerTransformer\<close>

text \<open>
  C8. On an instance without the attribute \<open>pca\<close>, that is before \<open>fit\<close>, \<open>transform\<close>
  raises (an AttributeError) and returns no output, whatever the input and the PCA
  implementation.
\<close>

theorem transform_before_fit_fails:
  assumes "pca t = None"
  shows "WhitenerTransformer_transform P t X = Inl AttributeError"
  using assms by (simp add: WhitenerTransformer_transform_def)

theorem transform_before_fit_fails_witness:
  "pca (WhitenerTransformer_init (Some 2) :: unit WhitenerTransformer) = None
   \<and> WhitenerTransformer_transform (\<lambda>m Z. Inr Z)
        (WhitenerTransformer_init (Some 2) :: unit WhitenerTransformer) sample_batch
       = (Inl AttributeError :: error + real array3)"
proof -
  have h: "pca (WhitenerTransformer_init (Some 2) :: unit WhitenerTransformer) = None"
    by (simp add: WhitenerTransformer_init_def)
  show ?thesis
    using h transform_before_fit_fails [OF h] by simp
qed

text \<open>With the attribute set, and a PCA that returns its input, the batch comes back.\<close>

lemma transform_after_fit_example:
  "WhitenerTransformer_transform (\<lambda>m Z. Inr Z) \<lparr>n_components = None, pca = Some ()\<rparr>
        \<lparr>dim0 = 1, dim1 = 2, dim2 = 2, items = [[[1, 2], [3, 4::real]]]\<rparr>
     = Inr \<lparr>dim0 = 1, dim1 = 2, dim2 = 2, items = [[[1, 2], [3, 4]]]\<rparr>"
  by (simp add: WhitenerTransformer_transform_def whitener_flatten_def reshape_lead_def size2_def
        flatten2_def upt_rec)

section \<open>Properties of FuncTransformer\<close>

lemma filter_map_int: "filter (\<lambda>d. d \<noteq> - 1) (map int xs) = map int xs"
  by (induction xs) auto

lemma filter_map_int_none: "filter (\<lambda>d. d = - 1) (map int xs) = []"
  by (induction xs) auto

lemma prod_list_map_int: "prod_list (map int xs) = int (prod_list xs)"
  by (induction xs) auto

lemma reshape_to_shape:
  "reshape (map int sh) A =
     (if prod_list sh = length (data A) then Inr \<lparr>shape = sh, data = data A\<rparr> else Inl ValueError)"
  by (auto simp: reshape_def Let_def filter_map_int filter_map_int_none prod_list_map_int
        list_ex_iff comp_def)

lemma reshape_rows:
  assumes "wf_ndarray X" and "shape X = s0 # ss"
  shows "reshape [int s0, - 1] X =
           (if s0 = 0 then Inl ValueError
            else Inr \<lparr>shape = [s0, prod_list ss], data = data X\<rparr>)"
  using assms by (auto simp: reshape_def Let_def wf_ndarray_def nat_mult_distrib)

text \<open>
  C9. When the function returns an array whose number of elements differs from the
  input's, \<open>transform\<close> raises: ValueError from a \<open>reshape\<close>, or IndexError for an input
  without dimensions. The check is the one \<open>reshape\<close> makes. When the numbers agree, and
  the first dimension is not 0, the result is the function's output in the shape of the
  input.
\<close>

theorem func_output_size_checked:
  assumes "wf_ndarray X" and "func t X = Inr Y"
  shows "(length (data Y) \<noteq> length (data X) \<longrightarrow>
            FuncTransformer_transform t X = Inl (if shape X = [] then IndexError else ValueError))
         \<and> (length (data Y) = length (data X) \<and> shape X \<noteq> [] \<and> hd (shape X) \<noteq> 0 \<longrightarrow>
            FuncTransformer_transform t X = Inr \<lparr>shape = shape X, data = data Y\<rparr>)"
proof (cases "shape X")
  case Nil
  then show ?thesis by (simp add: FuncTransformer_transform_def)
next
  case (Cons s0 ss)
  have sz: "prod_list (shape X) = length (data X)"
    using assms(1) by (simp add: wf_ndarray_def)
  have r: "reshape (map int (s0 # ss)) Y =
     (if prod_list (s0 # ss) = length (data Y) then Inr \<lparr>shape = s0 # ss, data = data Y\<rparr>
      else Inl ValueError)"
    by (rule reshape_to_shape)
  show ?thesis
    using Cons assms sz r
    by (auto simp: FuncTransformer_transform_def reshape_rows)
qed

theorem func_output_size_checked_witness:
  "FuncTransformer_transform \<lparr>func = (\<lambda>A. Inr \<lparr>shape = [3], data = [0, 0, 0::real]\<rparr>)\<rparr>
       \<lparr>shape = [2, 2], data = [1, 2, 3, 4::real]\<rparr> = Inl ValueError
   \<and> FuncTransformer_transform \<lparr>func = Inr\<rparr> \<lparr>shape = [2, 2], data = [1, 2, 3, 4::real]\<rparr>
       = Inr \<lparr>shape = [2, 2], data = [1, 2, 3, 4]\<rparr>"
proof -
  let ?X = "\<lparr>shape = [2, 2], data = [1, 2, 3, 4::real]\<rparr>"
  let ?Y = "\<lparr>shape = [3], data = [0, 0, 0::real]\<rparr>"
  have w: "wf_ndarray ?X"
    by (simp add: wf_ndarray_def)
  have f1: "func \<lparr>func = (\<lambda>A. Inr ?Y)\<rparr> ?X = Inr ?Y"
    by simp
  have f2: "func \<lparr>func = Inr\<rparr> ?X = Inr ?X"
    by simp
  show ?thesis
    using func_output_size_checked [OF w f1] func_output_size_checked [OF w f2] by simp
qed

end
